theory Spec2Isabelle
  imports Complex_Main "HOL-Library.Word"
begin

unbundle bit_operations_syntax

section \<open>Python values, exceptions and paths\<close>

text \<open>
  The development embeds \<^verbatim>\<open>dewarping_json_worker/mat_to_npy.py\<close>, the converter
  class \<^verbatim>\<open>MatToNpyConverterDebug\<close>. Every method becomes a function of the same name.
  An exception is a value: a function that can raise returns \<open>exn + 'a\<close>, with
  \<open>Inl\<close> the exception. Only the class distinctions the source's handlers make
  are kept: \<^verbatim>\<open>except (OSError, IOError)\<close> catches \<open>OSError\<close> (with its subclasses
  \<^verbatim>\<open>FileNotFoundError\<close>, \<^verbatim>\<open>PermissionError\<close>; \<^verbatim>\<open>IOError\<close> is the same class),
  \<^verbatim>\<open>except Exception\<close> and a bare \<^verbatim>\<open>except\<close> catch every class below.
\<close>

datatype exn_class = OSError | ValueError | TypeError | KeyError | NotImplementedError
  | UnpicklingError | RuntimeError

datatype exn = Exn (exn_class: exn_class) (message: string)

fun class_name :: "exn_class \<Rightarrow> string" where
  "class_name OSError = ''OSError''"
| "class_name ValueError = ''ValueError''"
| "class_name TypeError = ''TypeError''"
| "class_name KeyError = ''KeyError''"
| "class_name NotImplementedError = ''NotImplementedError''"
| "class_name UnpicklingError = ''_pickle.UnpicklingError''"
| "class_name RuntimeError = ''RuntimeError''"

text \<open>
  \<^verbatim>\<open>traceback.format_exc()\<close>: the header and the final line, which names the class and
  the message. The frame lines between them depend on the interpreter and are left out.
\<close>

definition format_exc :: "exn \<Rightarrow> string" where
  "format_exc e =
     ''Traceback (most recent call last):'' @ [CHR 0x0A] @
     class_name (exn_class e) @ '': '' @ message e @ [CHR 0x0A]"

text \<open>
  A \<^verbatim>\<open>pathlib.Path\<close> is the list of its parts. \<^verbatim>\<open>Path('.')\<close> is the empty list.
\<close>

type_synonym path = "string list"

definition endswith :: "string \<Rightarrow> string \<Rightarrow> bool" where
  "endswith s suf = (length suf \<le> length s \<and> drop (length s - length suf) s = suf)"

definition startswith :: "string \<Rightarrow> string \<Rightarrow> bool" where
  "startswith s pre = (take (length pre) s = pre)"

definition rfind :: "char \<Rightarrow> string \<Rightarrow> int" where
  "rfind c s =
     (if c \<in> set s
      then int (length s) - 1 - int (length (takeWhile (\<lambda>x. x \<noteq> c) (rev s)))
      else - 1)"

definition path_name :: "path \<Rightarrow> string" where
  "path_name p = (if p = [] then [] else last p)"

definition path_suffix :: "path \<Rightarrow> string" where
  "path_suffix p =
     (let name = path_name p; i = rfind CHR ''.'' name
      in if 0 < i \<and> i < int (length name) - 1 then drop (nat i) name else [])"

definition with_suffix :: "path \<Rightarrow> string \<Rightarrow> exn + path" where
  "with_suffix p suffix =
     (let name = path_name p in
      if name = [] then Inl (Exn ValueError ''path has an empty name'')
      else
        let old_suffix = path_suffix p;
            name' = (if old_suffix = [] then name @ suffix
                     else take (length name - length old_suffix) name @ suffix)
        in Inr (butlast p @ [name']))"

definition relative_to :: "path \<Rightarrow> path \<Rightarrow> exn + path" where
  "relative_to p base =
     (if take (length base) p = base then Inr (drop (length base) p)
      else Inl (Exn ValueError ''path is not in the subpath of the root''))"

definition parent :: "path \<Rightarrow> path" where
  "parent p = (if p = [''/''] then p else butlast p)"

section \<open>Arrays\<close>

text \<open>
  A floating-point datum is an IEEE 754 value: a finite number (held as the number it
  denotes), negative zero, an infinity or NaN. \<open>Num 0\<close> is positive zero.
\<close>

datatype fl = Num real | NegZero | PInf | NInf | NaN

datatype dtype = Float64 | Float32 | Float16 | Int64 | Int32 | UInt8 | Bool8 | Object

fun dtype_str :: "dtype \<Rightarrow> string" where
  "dtype_str Float64 = ''float64''"
| "dtype_str Float32 = ''float32''"
| "dtype_str Float16 = ''float16''"
| "dtype_str Int64 = ''int64''"
| "dtype_str Int32 = ''int32''"
| "dtype_str UInt8 = ''uint8''"
| "dtype_str Bool8 = ''bool''"
| "dtype_str Object = ''object''"

text \<open>\<^verbatim>\<open>np.issubdtype(d, np.floating)\<close>.\<close>

fun is_floating :: "dtype \<Rightarrow> bool" where
  "is_floating Float64 = True"
| "is_floating Float32 = True"
| "is_floating Float16 = True"
| "is_floating _ = False"

text \<open>
  A Python value, as far as the converter meets one: an \<^verbatim>\<open>np.ndarray\<close> (shape, dtype
  and the elements in row-major order), a numpy scalar, a \<^verbatim>\<open>dict\<close> from names to
  values (in insertion order), an \<^verbatim>\<open>h5py.Reference\<close>, a string or \<^verbatim>\<open>None\<close>. The
  elements of an array of dtype \<^verbatim>\<open>object\<close> are Python values again.
\<close>

datatype elem = FloatE fl | IntE int | BoolE bool | ObjE pyval
and ndarray = NDArray (shape: "nat list") (dtype: dtype) (flat: "elem list")
and pyval =
    Array ndarray
  | Scalar dtype elem
  | Dict "(string \<times> pyval) list"
  | Reference nat
  | PyStr string
  | PyNone

definition ndim :: "ndarray \<Rightarrow> nat" where
  "ndim a = length (shape a)"

text \<open>\<^verbatim>\<open>isinstance(v, np.ndarray)\<close>, \<^verbatim>\<open>isinstance(v, dict)\<close>, \<^verbatim>\<open>isinstance(v, h5py.Reference)\<close>.\<close>

fun is_ndarray :: "pyval \<Rightarrow> bool" where
  "is_ndarray (Array _) = True"
| "is_ndarray _ = False"

fun is_dict :: "pyval \<Rightarrow> bool" where
  "is_dict (Dict _) = True"
| "is_dict _ = False"

fun is_reference_obj :: "pyval \<Rightarrow> bool" where
  "is_reference_obj (Reference _) = True"
| "is_reference_obj _ = False"

text \<open>\<^verbatim>\<open>type(v)\<close> as Python prints it, and \<^verbatim>\<open>type(v).__name__\<close>.\<close>

fun type_name :: "pyval \<Rightarrow> string" where
  "type_name (Array _) = ''ndarray''"
| "type_name (Scalar d _) = (if d = Bool8 then ''bool_'' else dtype_str d)"
| "type_name (Dict _) = ''dict''"
| "type_name (Reference _) = ''Reference''"
| "type_name (PyStr _) = ''str''"
| "type_name PyNone = ''NoneType''"

fun type_module :: "pyval \<Rightarrow> string" where
  "type_module (Array _) = ''numpy.''"
| "type_module (Scalar _ _) = ''numpy.''"
| "type_module (Reference _) = ''h5py.h5r.''"
| "type_module _ = []"

definition type_repr :: "pyval \<Rightarrow> string" where
  "type_repr v = ''<class '' @ [CHR 0x27] @ type_module v @ type_name v @ [CHR 0x27] @ ''>''"

text \<open>
  The transpose of all axes, \<^verbatim>\<open>a.T\<close>: the shape is reversed, and the element at index
  \<open>(i1, ..., in)\<close> of the result is the element at \<open>(in, ..., i1)\<close> of \<open>a\<close>.
  \<open>unravel\<close> and \<open>ravel\<close> convert between a row-major position and an index.
\<close>

fun unravel :: "nat list \<Rightarrow> nat \<Rightarrow> nat list" where
  "unravel [] k = []"
| "unravel (n # ns) k = (k div prod_list ns) mod n # unravel ns (k mod prod_list ns)"

fun ravel :: "nat list \<Rightarrow> nat list \<Rightarrow> nat" where
  "ravel (n # ns) (i # is) = i * prod_list ns + ravel ns is"
| "ravel _ _ = 0"

definition transpose_nd :: "ndarray \<Rightarrow> ndarray" where
  "transpose_nd a =
     NDArray (rev (shape a)) (dtype a)
       (map (\<lambda>k. flat a ! ravel (shape a) (rev (unravel (rev (shape a)) k)))
            [0 ..< prod_list (shape a)])"

section \<open>Files and the readers\<close>

text \<open>
  A Python \<^verbatim>\<open>dict\<close> keeps its keys in insertion order; assigning to a key that is
  present replaces the value in place.
\<close>

fun dict_set :: "('k \<times> 'v) list \<Rightarrow> 'k \<Rightarrow> 'v \<Rightarrow> ('k \<times> 'v) list" where
  "dict_set [] k v = [(k, v)]"
| "dict_set ((k', v') # d) k v = (if k' = k then (k, v) # d else (k', v') # dict_set d k v)"

text \<open>
  An HDF5 file as \<^verbatim>\<open>h5py\<close> shows it: the members of the root group by name, each a
  group or a dataset, and the objects that references point to. A dataset is held as the
  value \<^verbatim>\<open>dataset[()]\<close> reads; \<^verbatim>\<open>dataset.shape\<close> and \<^verbatim>\<open>dataset.dtype\<close> follow from it.
  A dataset of references has dtype \<^verbatim>\<open>object\<close>.
\<close>

datatype h5node = Group | Dataset pyval

record h5file =
  entries :: "(string \<times> h5node) list"
  targets :: "(nat \<times> h5node) list"

fun dataset_shape :: "pyval \<Rightarrow> nat list" where
  "dataset_shape (Array a) = shape a"
| "dataset_shape _ = []"

fun dataset_dtype :: "pyval \<Rightarrow> dtype" where
  "dataset_dtype (Array a) = dtype a"
| "dataset_dtype (Scalar d _) = d"
| "dataset_dtype _ = Object"

text \<open>\<^verbatim>\<open>f[ref]\<close>: an invalid reference raises.\<close>

definition h5_deref :: "h5file \<Rightarrow> nat \<Rightarrow> exn + h5node" where
  "h5_deref f r =
     (case map_of (targets f) r of
        None \<Rightarrow> Inl (Exn ValueError ''Invalid HDF5 object reference'')
      | Some n \<Rightarrow> Inr n)"

text \<open>
  A legacy MATLAB file: its variables in file order. Each variable has the array MATLAB
  would load, and the dtype under which the data were saved (MATLAB stores a matrix of
  small integers in an integer type whatever its class). \<^verbatim>\<open>scipy.io.loadmat\<close> returns the
  former with \<^verbatim>\<open>mat_dtype=True\<close>, and the array in its saved dtype without; the shape is
  the same either way.
\<close>

datatype matvar = MatVar (mv_name: string) (mv_value: ndarray) (mv_saved: dtype)

record matfile =
  header :: string
  vars :: "matvar list"

fun cast_elem :: "dtype \<Rightarrow> elem \<Rightarrow> elem" where
  "cast_elem d (FloatE x) =
     (if is_floating d \<or> d = Object then FloatE x
      else case x of Num q \<Rightarrow> IntE \<lfloor>q\<rfloor> | _ \<Rightarrow> IntE 0)"
| "cast_elem d (IntE n) = (if is_floating d then FloatE (Num (of_int n)) else IntE n)"
| "cast_elem d (BoolE b) =
     (if is_floating d then FloatE (Num (if b then 1 else 0))
      else if d = Bool8 \<or> d = Object then BoolE b else IntE (if b then 1 else 0))"
| "cast_elem d (ObjE v) = ObjE v"

definition saved_view :: "matvar \<Rightarrow> ndarray" where
  "saved_view v =
     (if mv_saved v = dtype (mv_value v) then mv_value v
      else NDArray (shape (mv_value v)) (mv_saved v)
             (map (cast_elem (mv_saved v)) (flat (mv_value v))))"

text \<open>
  The reports the converter builds. A field that a Python \<^verbatim>\<open>dict\<close> may lack is an
  option (\<open>None\<close>: the key is absent, or its value is \<^verbatim>\<open>None\<close>).
\<close>

record var_info =
  vi_name :: string
  vi_type :: string
  vi_shape :: "nat list option"
  vi_dtype :: "string option"
  vi_is_reference :: "bool option"
  vi_referenced_type :: "string option"
  vi_referenced_shape :: "nat list option"

record file_info =
  fi_file :: path
  fi_version :: "string option"
  fi_variables :: "var_info list"
  fi_issues :: "string list"

record loaded_var =
  lv_name :: string
  lv_original_shape :: "nat list option"
  lv_shape :: "nat list option"
  lv_dtype :: string

record load_meta =
  lm_file :: path
  lm_version :: "string option"
  loaded_variables :: "loaded_var list"
  lm_warnings :: "string list"
  transpose_applied :: bool
  selected_variable :: "string option"

record differences =
  shape_matlab :: "nat list"
  shape_numpy :: "nat list"
  dtype_matlab :: string
  dtype_numpy :: string
  max_relative_difference :: "fl option"
  comparison_error :: "string option"
  hash_matlab :: string
  hash_numpy :: string

record comparison =
  filename :: string
  shapes_equal :: bool
  dtypes_equal :: bool
  values_equal :: bool
  transposed_equal :: bool
  differences :: differences

datatype verification =
    NoVerification
  | ArrayComparison comparison
  | DictKeys bool "string list"

record cv_result =
  input_file :: path
  output_file :: "path option"
  success :: bool
  verification :: verification
  warnings :: "string list"
  errors :: "string list"
  load_meta :: "load_meta option"
  traceback :: "string option"

text \<open>
  The file system: the regular files by path, in the order a directory walk meets them,
  and the paths the process may not write. A file is an HDF5 file, a legacy MATLAB file,
  an \<^verbatim>\<open>.npy\<close> file (always one array), a pickle, the JSON report, or a path that none of
  the readers can open, with the exceptions the HDF5 reader and the legacy reader raise on
  it (a corrupt file, or a name the file system cannot encode). Directories are not tracked. Two library operations are parameters of the world:
  \<^verbatim>\<open>np.array\<close> on a list of values, and the bytes of an array of Python objects (their
  addresses). A byte is a natural number below 256.
\<close>

datatype disk_file =
    H5File h5file
  | MatFile matfile
  | NpyFile ndarray
  | PickleFile pyval
  | ReportFile "(path \<times> cv_result) list"
  | OtherFile exn exn

record world =
  files :: "(path \<times> disk_file) list"
  read_only :: "path \<Rightarrow> bool"
  np_array :: "pyval list \<Rightarrow> exn + ndarray"
  object_bytes :: "elem list \<Rightarrow> nat list"

definition lookup_file :: "world \<Rightarrow> path \<Rightarrow> disk_file option" where
  "lookup_file w p = map_of (files w) p"

definition write_file :: "world \<Rightarrow> path \<Rightarrow> disk_file \<Rightarrow> exn + world" where
  "write_file w p f =
     (if read_only w p then Inl (Exn OSError ''Permission denied'')
      else Inr (w\<lparr>files := dict_set (files w) p f\<rparr>))"

text \<open>\<^verbatim>\<open>h5py.File(path, 'r')\<close>: every failure of the HDF5 library to open a file is an \<open>OSError\<close>.\<close>

definition h5py_File :: "world \<Rightarrow> path \<Rightarrow> exn + h5file" where
  "h5py_File w p =
     (case lookup_file w p of
        None \<Rightarrow> Inl (Exn OSError ''Unable to open file (No such file or directory)'')
      | Some (H5File f) \<Rightarrow> Inr f
      | Some (OtherFile e1 e2) \<Rightarrow> Inl e1
      | Some _ \<Rightarrow> Inl (Exn OSError ''Unable to open file (file signature not found)''))"

text \<open>
  \<^verbatim>\<open>scipy.io.loadmat(path, mat_dtype=...)\<close>: the bookkeeping keys, then the variables.
  (The value of \<^verbatim>\<open>__globals__\<close> is a list in Python; nothing reads it.)
\<close>

definition loadmat_dict :: "matfile \<Rightarrow> bool \<Rightarrow> (string \<times> pyval) list" where
  "loadmat_dict m mat_dtype =
     foldl (\<lambda>d v. dict_set d (mv_name v) (Array (if mat_dtype then mv_value v else saved_view v)))
       [(''__header__'', PyStr (header m)), (''__version__'', PyStr ''1.0''),
        (''__globals__'', PyNone)]
       (vars m)"

definition scipy_loadmat :: "world \<Rightarrow> path \<Rightarrow> bool \<Rightarrow> exn + (string \<times> pyval) list" where
  "scipy_loadmat w p mat_dtype =
     (case lookup_file w p of
        None \<Rightarrow> Inl (Exn OSError ''No such file or directory'')
      | Some (MatFile m) \<Rightarrow> Inr (loadmat_dict m mat_dtype)
      | Some (H5File f) \<Rightarrow> Inl (Exn NotImplementedError ''Please use HDF reader for matlab v7.3 files'')
      | Some (OtherFile e1 e2) \<Rightarrow> Inl e2
      | Some _ \<Rightarrow> Inl (Exn ValueError ''Unknown mat file type''))"

section \<open>The Format Detector\<close>

text \<open>
  \<^verbatim>\<open>detect_mat_version\<close>: the first handler is \<^verbatim>\<open>except (OSError, IOError)\<close>, so an
  exception of another class leaves the function; the second is a bare \<^verbatim>\<open>except\<close>.
\<close>

definition detect_mat_version :: "world \<Rightarrow> path \<Rightarrow> exn + string" where
  "detect_mat_version w file_path =
     (case h5py_File w file_path of
        Inr f \<Rightarrow> Inr ''v7.3''
      | Inl e \<Rightarrow>
          if exn_class e = OSError then
            (case scipy_loadmat w file_path True of
               Inr d \<Rightarrow> Inr ''v7.0_or_older''
             | Inl e' \<Rightarrow> Inr ''unknown'')
          else Inl e)"

section \<open>Deep inspection\<close>

text \<open>
  \<^verbatim>\<open>key.startswith('__') and key.endswith('__')\<close>: the bookkeeping keys of the legacy
  reader.
\<close>

definition is_dunder :: "string \<Rightarrow> bool" where
  "is_dunder key = (startswith key ''__'' \<and> endswith key ''__'')"

fun node_type_name :: "h5node \<Rightarrow> string" where
  "node_type_name Group = ''Group''"
| "node_type_name (Dataset v) = ''Dataset''"

fun node_shape :: "h5node \<Rightarrow> nat list option" where
  "node_shape Group = None"
| "node_shape (Dataset v) = Some (dataset_shape v)"

text \<open>
  The record of one member of an HDF5 file. The lookup of a reference stands in a
  \<^verbatim>\<open>try\<close> with a bare \<^verbatim>\<open>except: pass\<close>, so a reference that does not resolve leaves the
  record without the two \<^verbatim>\<open>referenced_\<close> fields.
\<close>

definition inspect_h5_var :: "h5file \<Rightarrow> string \<Rightarrow> h5node \<Rightarrow> var_info" where
  "inspect_h5_var f key node =
     (let var_info =
        \<lparr>vi_name = key, vi_type = node_type_name node, vi_shape = None, vi_dtype = None,
         vi_is_reference = Some False, vi_referenced_type = None,
         vi_referenced_shape = None\<rparr>
      in case node of
        Group \<Rightarrow> var_info
      | Dataset raw \<Rightarrow>
          let var_info = var_info\<lparr>vi_shape := Some (dataset_shape raw),
                                  vi_dtype := Some (dtype_str (dataset_dtype raw))\<rparr>
          in if dataset_dtype raw = Object then
               (let var_info = var_info\<lparr>vi_is_reference := Some True\<rparr>
                in case raw of
                  Reference r \<Rightarrow>
                    (case h5_deref f r of
                       Inl e \<Rightarrow> var_info
                     | Inr ref_obj \<Rightarrow>
                         var_info\<lparr>vi_referenced_type := Some (node_type_name ref_obj),
                                  vi_referenced_shape := node_shape ref_obj\<rparr>)
                | _ \<Rightarrow> var_info)
             else var_info)"

definition reference_issue :: "string \<Rightarrow> string" where
  "reference_issue key =
     ''Variable '' @ [CHR 0x27] @ key @ [CHR 0x27] @
     '' is a reference (may need special handling)''"

text \<open>\<^verbatim>\<open>var.shape if hasattr(var, 'shape') else None\<close>, and the same for the dtype.\<close>

fun value_shape :: "pyval \<Rightarrow> nat list option" where
  "value_shape (Array a) = Some (shape a)"
| "value_shape (Scalar d e) = Some []"
| "value_shape _ = None"

fun value_dtype :: "pyval \<Rightarrow> string option" where
  "value_dtype (Array a) = Some (dtype_str (dtype a))"
| "value_dtype (Scalar d e) = Some (dtype_str d)"
| "value_dtype _ = None"

definition inspect_legacy_var :: "string \<Rightarrow> pyval \<Rightarrow> var_info" where
  "inspect_legacy_var key var =
     \<lparr>vi_name = key, vi_type = type_name var, vi_shape = value_shape var,
      vi_dtype = value_dtype var, vi_is_reference = None, vi_referenced_type = None,
      vi_referenced_shape = None\<rparr>"

text \<open>
  \<^verbatim>\<open>inspect_mat_file_deep\<close>: the whole body stands in \<^verbatim>\<open>try ... except Exception\<close>, so
  the function always returns; a failure becomes an entry of \<open>issues\<close>.
\<close>

definition inspect_mat_file_deep :: "world \<Rightarrow> path \<Rightarrow> file_info" where
  "inspect_mat_file_deep w file_path =
     (let info = \<lparr>fi_file = file_path, fi_version = None, fi_variables = [], fi_issues = []\<rparr>;
          failed = (\<lambda>info e. info\<lparr>fi_issues := fi_issues info @
                                   [''Error inspecting file: '' @ message e]\<rparr>)
      in case detect_mat_version w file_path of
        Inl e \<Rightarrow> failed info e
      | Inr version \<Rightarrow>
          let info = info\<lparr>fi_version := Some version\<rparr> in
          if version = ''v7.3'' then
            (case h5py_File w file_path of
               Inl e \<Rightarrow> failed info e
             | Inr f \<Rightarrow>
                 let vs = map (\<lambda>(key, node). inspect_h5_var f key node) (entries f) in
                 info\<lparr>fi_variables := vs,
                      fi_issues := map (\<lambda>v. reference_issue (vi_name v))
                                     (filter (\<lambda>v. vi_is_reference v = Some True) vs)\<rparr>)
          else
            (case scipy_loadmat w file_path False of
               Inl e \<Rightarrow> failed info e
             | Inr mat_data \<Rightarrow>
                 info\<lparr>fi_variables :=
                        map (\<lambda>(key, var). inspect_legacy_var key var)
                          (filter (\<lambda>(key, var). \<not> is_dunder key) mat_data)\<rparr>))"

section \<open>The Array Loader\<close>

text \<open>
  The value of one dataset after the references are followed, with the warnings this
  adds. \<^verbatim>\<open>f[raw_data]\<close> on a single reference stands outside every \<^verbatim>\<open>try\<close>: a
  reference that does not resolve raises out of the loader. An array of references is
  followed element by element inside \<^verbatim>\<open>try ... except\<close>: any failure keeps the raw array
  and warns.
\<close>

fun item_value :: "elem \<Rightarrow> pyval" where
  "item_value (ObjE v) = v"
| "item_value (FloatE x) = Scalar Float64 (FloatE x)"
| "item_value (IntE n) = Scalar Int64 (IntE n)"
| "item_value (BoolE b) = Scalar Bool8 (BoolE b)"

fun deref_all :: "h5file \<Rightarrow> elem list \<Rightarrow> exn + pyval list" where
  "deref_all f [] = Inr []"
| "deref_all f (item # items) =
     (case (case item_value item of
              Reference r \<Rightarrow>
                (case h5_deref f r of
                   Inl e \<Rightarrow> Inl e
                 | Inr Group \<Rightarrow> Inl (Exn TypeError ''Accessing a group is done with bytes or str'')
                 | Inr (Dataset v) \<Rightarrow> Inr v)
            | v \<Rightarrow> Inr v) of
        Inl e \<Rightarrow> Inl e
      | Inr v \<Rightarrow> (case deref_all f items of Inl e \<Rightarrow> Inl e | Inr vs \<Rightarrow> Inr (v # vs)))"

definition reshape :: "ndarray \<Rightarrow> nat list \<Rightarrow> exn + ndarray" where
  "reshape a s =
     (if prod_list s = prod_list (shape a) then Inr (NDArray s (dtype a) (flat a))
      else Inl (Exn ValueError ''cannot reshape array''))"

definition quoted :: "string \<Rightarrow> string" where
  "quoted key = [CHR 0x27] @ key @ [CHR 0x27]"

definition materialize :: "world \<Rightarrow> h5file \<Rightarrow> string \<Rightarrow> pyval \<Rightarrow> exn + pyval \<times> string list" where
  "materialize w f key raw_data =
     (if dataset_dtype raw_data = Object then
        (case raw_data of
           Reference r \<Rightarrow>
             (case h5_deref f r of
                Inl e \<Rightarrow> Inl e
              | Inr (Dataset v) \<Rightarrow> Inr (v, [])
              | Inr Group \<Rightarrow>
                  Inr (raw_data, [''Variable '' @ quoted key @ '' is a reference to non-dataset'']))
         | Array a \<Rightarrow>
             (if dtype a = Object then
                (let failed = Inr (raw_data,
                       [''Could not dereference object array for '' @ quoted key])
                 in case deref_all f (flat a) of
                   Inl e \<Rightarrow> failed
                 | Inr dereferenced \<Rightarrow>
                     (case np_array w dereferenced of
                        Inl e \<Rightarrow> failed
                      | Inr arr \<Rightarrow>
                          (case reshape arr (shape a) of
                             Inl e \<Rightarrow> failed
                           | Inr data \<Rightarrow> Inr (Array data, []))))
              else Inr (raw_data, []))
         | _ \<Rightarrow> Inr (raw_data, []))
      else Inr (raw_data, []))"

text \<open>
  The layout transform: an array of rank 2 or more is recorded in the metadata with its
  shape and dtype as they are before the transform, then transposed, and the flag is set.
\<close>

definition layout_transform :: "string \<Rightarrow> pyval \<Rightarrow> load_meta \<Rightarrow> pyval \<times> load_meta" where
  "layout_transform key data meta =
     (case data of
        Array a \<Rightarrow>
          if ndim a \<ge> 2 then
            (Array (transpose_nd a),
             meta\<lparr>loaded_variables := loaded_variables meta @
                     [\<lparr>lv_name = key, lv_original_shape = Some (shape a), lv_shape = None,
                       lv_dtype = dtype_str (dtype a)\<rparr>],
                  transpose_applied := True\<rparr>)
          else (data, meta)
      | _ \<Rightarrow> (data, meta))"

fun load_h5_entries ::
  "world \<Rightarrow> h5file \<Rightarrow> (string \<times> h5node) list \<Rightarrow> (string \<times> pyval) list \<times> load_meta \<Rightarrow>
   exn + (string \<times> pyval) list \<times> load_meta" where
  "load_h5_entries w f [] st = Inr st"
| "load_h5_entries w f ((key, Group) # rest) st = load_h5_entries w f rest st"
| "load_h5_entries w f ((key, Dataset raw_data) # rest) (data_dict, meta) =
     (case materialize w f key raw_data of
        Inl e \<Rightarrow> Inl e
      | Inr (data, warns) \<Rightarrow>
          (case layout_transform key data (meta\<lparr>lm_warnings := lm_warnings meta @ warns\<rparr>) of
             (data', meta') \<Rightarrow> load_h5_entries w f rest (dict_set data_dict key data', meta')))"

fun load_legacy_entries ::
  "(string \<times> pyval) list \<Rightarrow> (string \<times> pyval) list \<times> load_meta \<Rightarrow>
   (string \<times> pyval) list \<times> load_meta" where
  "load_legacy_entries [] st = st"
| "load_legacy_entries ((key, data) # rest) (data_dict, meta) =
     (if is_dunder key then load_legacy_entries rest (data_dict, meta)
      else
        load_legacy_entries rest
          (dict_set data_dict key data,
           case data of
             Array a \<Rightarrow>
               meta\<lparr>loaded_variables := loaded_variables meta @
                      [\<lparr>lv_name = key, lv_original_shape = None, lv_shape = Some (shape a),
                        lv_dtype = dtype_str (dtype a)\<rparr>]\<rparr>
           | _ \<Rightarrow> meta))"

text \<open>
  The choice of what to return: the named variable when a name is given and present, the
  only variable when there is one, the whole dictionary otherwise.
\<close>

definition select_data ::
  "string option \<Rightarrow> (string \<times> pyval) list \<Rightarrow> load_meta \<Rightarrow> pyval \<times> load_meta" where
  "select_data variable_name data_dict meta =
     (case (case variable_name of
              None \<Rightarrow> None
            | Some n \<Rightarrow> if n = [] then None else map_option (\<lambda>v. (n, v)) (map_of data_dict n)) of
        Some (n, v) \<Rightarrow> (v, meta\<lparr>selected_variable := Some n\<rparr>)
      | None \<Rightarrow>
          (case data_dict of
             [(k, v)] \<Rightarrow> (v, meta\<lparr>selected_variable := Some k\<rparr>)
           | _ \<Rightarrow> (Dict data_dict, meta\<lparr>selected_variable := Some ''dict''\<rparr>)))"

definition load_mat_correctly ::
  "world \<Rightarrow> path \<Rightarrow> string option \<Rightarrow> exn + pyval \<times> load_meta" where
  "load_mat_correctly w file_path variable_name =
     (let meta = \<lparr>lm_file = file_path, lm_version = None, loaded_variables = [],
                  lm_warnings = [], transpose_applied = False, selected_variable = None\<rparr>
      in case detect_mat_version w file_path of
        Inl e \<Rightarrow> Inl e
      | Inr version \<Rightarrow>
          let meta = meta\<lparr>lm_version := Some version\<rparr> in
          if version = ''v7.3'' then
            (case h5py_File w file_path of
               Inl e \<Rightarrow> Inl e
             | Inr f \<Rightarrow>
                 (case load_h5_entries w f (entries f) ([], meta) of
                    Inl e \<Rightarrow> Inl e
                  | Inr (data_dict, meta') \<Rightarrow> Inr (select_data variable_name data_dict meta')))
          else
            (case scipy_loadmat w file_path True of
               Inl e \<Rightarrow> Inl e
             | Inr mat_data \<Rightarrow>
                 (case load_legacy_entries mat_data ([], meta) of
                    (data_dict, meta') \<Rightarrow> Inr (select_data variable_name data_dict meta'))))"


section \<open>IEEE arithmetic\<close>

text \<open>
  numpy computes in the binary format of the dtype: every operation returns the exact
  result rounded to the nearest value of the format, ties to even. A format has a
  precision (the bits of the significand, the hidden one included) and a largest
  exponent.
\<close>

fun precision :: "dtype \<Rightarrow> nat" where
  "precision Float32 = 24"
| "precision Float16 = 11"
| "precision _ = 53"

fun emax :: "dtype \<Rightarrow> int" where
  "emax Float32 = 127"
| "emax Float16 = 15"
| "emax _ = 1023"

fun exponent_bits :: "dtype \<Rightarrow> nat" where
  "exponent_bits Float32 = 8"
| "exponent_bits Float16 = 5"
| "exponent_bits _ = 11"

definition pow2 :: "int \<Rightarrow> real" where
  "pow2 k = (if 0 \<le> k then 2 ^ nat k else 1 / 2 ^ nat (- k))"

function ilog2 :: "int \<Rightarrow> int" where
  "ilog2 n = (if n < 2 then 0 else 1 + ilog2 (n div 2))"
  by pat_completeness auto
termination
  by (relation "measure nat") auto

declare ilog2.simps [simp del]

text \<open>The exponent of a positive number: the \<open>e\<close> with \<open>2 ^ e \<le> q < 2 ^ (e + 1)\<close>.\<close>

definition floor_log2 :: "real \<Rightarrow> int" where
  "floor_log2 q =
     (if 1 \<le> q then ilog2 \<lfloor>q\<rfloor>
      else - ilog2 (\<lceil>1 / q\<rceil> - 1) - 1)"

definition round_half_even :: "real \<Rightarrow> int" where
  "round_half_even x =
     (let f = \<lfloor>x\<rfloor>; r = x - of_int f
      in if r < 1 / 2 then f else if 1 / 2 < r then f + 1 else if even f then f else f + 1)"

definition fround :: "dtype \<Rightarrow> real \<Rightarrow> fl" where
  "fround d q =
     (if q = 0 then Num 0
      else
        let a = \<bar>q\<bar>;
            e = max (floor_log2 a) (1 - emax d);
            t = e - (int (precision d) - 1);
            m = round_half_even (a / pow2 t);
            r = of_int m * pow2 t
        in if pow2 (emax d + 1) \<le> r then (if q < 0 then NInf else PInf)
           else if m = 0 then (if q < 0 then NegZero else Num 0)
           else Num (if q < 0 then - r else r))"

text \<open>A Python \<^verbatim>\<open>float\<close> literal is the nearest double.\<close>

definition py_float :: "real \<Rightarrow> fl" where
  "py_float q = fround Float64 q"

fun fcast :: "dtype \<Rightarrow> fl \<Rightarrow> fl" where
  "fcast d (Num q) = fround d q"
| "fcast d x = x"

fun is_neg :: "fl \<Rightarrow> bool" where
  "is_neg (Num q) = (q < 0)"
| "is_neg NegZero = True"
| "is_neg NInf = True"
| "is_neg _ = False"

fun is_zero :: "fl \<Rightarrow> bool" where
  "is_zero (Num q) = (q = 0)"
| "is_zero NegZero = True"
| "is_zero _ = False"

fun is_inf :: "fl \<Rightarrow> bool" where
  "is_inf PInf = True"
| "is_inf NInf = True"
| "is_inf _ = False"

fun isfinite :: "fl \<Rightarrow> bool" where
  "isfinite (Num q) = True"
| "isfinite NegZero = True"
| "isfinite _ = False"

fun fval :: "fl \<Rightarrow> real" where
  "fval (Num q) = q"
| "fval _ = 0"

definition signed_zero :: "bool \<Rightarrow> fl" where
  "signed_zero neg = (if neg then NegZero else Num 0)"

definition signed_inf :: "bool \<Rightarrow> fl" where
  "signed_inf neg = (if neg then NInf else PInf)"

fun fneg :: "fl \<Rightarrow> fl" where
  "fneg (Num q) = (if q = 0 then NegZero else Num (- q))"
| "fneg NegZero = Num 0"
| "fneg PInf = NInf"
| "fneg NInf = PInf"
| "fneg NaN = NaN"

fun fabs :: "fl \<Rightarrow> fl" where
  "fabs (Num q) = Num \<bar>q\<bar>"
| "fabs NegZero = Num 0"
| "fabs PInf = PInf"
| "fabs NInf = PInf"
| "fabs NaN = NaN"

fun fadd_exact :: "dtype \<Rightarrow> fl \<Rightarrow> fl \<Rightarrow> fl" where
  "fadd_exact d NaN y = NaN"
| "fadd_exact d x NaN = NaN"
| "fadd_exact d PInf y = (if y = NInf then NaN else PInf)"
| "fadd_exact d NInf y = (if y = PInf then NaN else NInf)"
| "fadd_exact d x PInf = PInf"
| "fadd_exact d x NInf = NInf"
| "fadd_exact d NegZero y = y"
| "fadd_exact d x NegZero = x"
| "fadd_exact d (Num a) (Num b) = (if a + b = 0 then Num 0 else fround d (a + b))"

definition fadd :: "dtype \<Rightarrow> fl \<Rightarrow> fl \<Rightarrow> fl" where
  "fadd d x y = fadd_exact d (fcast d x) (fcast d y)"

definition fsub :: "dtype \<Rightarrow> fl \<Rightarrow> fl \<Rightarrow> fl" where
  "fsub d x y = fadd d x (fneg y)"

definition fmul_exact :: "dtype \<Rightarrow> fl \<Rightarrow> fl \<Rightarrow> fl" where
  "fmul_exact d x y =
     (let neg = (is_neg x \<noteq> is_neg y) in
      if x = NaN \<or> y = NaN then NaN
      else if is_inf x \<or> is_inf y then
        (if is_zero x \<or> is_zero y then NaN else signed_inf neg)
      else if is_zero x \<or> is_zero y then signed_zero neg
      else fround d (fval x * fval y))"

definition fmul :: "dtype \<Rightarrow> fl \<Rightarrow> fl \<Rightarrow> fl" where
  "fmul d x y = fmul_exact d (fcast d x) (fcast d y)"

definition fdiv_exact :: "dtype \<Rightarrow> fl \<Rightarrow> fl \<Rightarrow> fl" where
  "fdiv_exact d x y =
     (let neg = (is_neg x \<noteq> is_neg y) in
      if x = NaN \<or> y = NaN then NaN
      else if is_inf x then (if is_inf y then NaN else signed_inf neg)
      else if is_inf y then signed_zero neg
      else if is_zero y then (if is_zero x then NaN else signed_inf neg)
      else if is_zero x then signed_zero neg
      else fround d (fval x / fval y))"

definition fdiv :: "dtype \<Rightarrow> fl \<Rightarrow> fl \<Rightarrow> fl" where
  "fdiv d x y = fdiv_exact d (fcast d x) (fcast d y)"

text \<open>\<^verbatim>\<open>np.rint\<close>: to the nearest integer, ties to even; the sign of a zero result is kept.\<close>

fun frint :: "fl \<Rightarrow> fl" where
  "frint (Num q) =
     (let n = round_half_even q in
      if n = 0 then signed_zero (q < 0) else Num (of_int n))"
| "frint x = x"

text \<open>The comparisons: every comparison with NaN is false, and the two zeros are equal.\<close>

fun flt :: "fl \<Rightarrow> fl \<Rightarrow> bool" where
  "flt NaN y = False"
| "flt x NaN = False"
| "flt PInf y = False"
| "flt x NInf = False"
| "flt NInf y = True"
| "flt x PInf = True"
| "flt x y = (fval x < fval y)"

fun feq :: "fl \<Rightarrow> fl \<Rightarrow> bool" where
  "feq NaN y = False"
| "feq x NaN = False"
| "feq PInf y = (y = PInf)"
| "feq NInf y = (y = NInf)"
| "feq x PInf = False"
| "feq x NInf = False"
| "feq x y = (fval x = fval y)"

definition fle :: "fl \<Rightarrow> fl \<Rightarrow> bool" where
  "fle x y = (flt x y \<or> feq x y)"

text \<open>\<^verbatim>\<open>np.maximum\<close>, which \<^verbatim>\<open>np.max\<close> reduces with: a NaN operand gives NaN.\<close>

definition fmaximum :: "fl \<Rightarrow> fl \<Rightarrow> fl" where
  "fmaximum x y = (if x = NaN \<or> y = NaN then NaN else if flt x y then y else x)"

section \<open>numpy operations\<close>

text \<open>
  The number an element stands for in arithmetic; an element of an object array has
  none, and arithmetic on it raises \<open>TypeError\<close>.
\<close>

fun to_fl :: "elem \<Rightarrow> fl option" where
  "to_fl (FloatE x) = Some x"
| "to_fl (IntE n) = Some (Num (of_int n))"
| "to_fl (BoolE b) = Some (Num (if b then 1 else 0))"
| "to_fl (ObjE v) = None"

fun to_fls :: "elem list \<Rightarrow> exn + fl list" where
  "to_fls [] = Inr []"
| "to_fls (e # es) =
     (case to_fl e of
        None \<Rightarrow> Inl (Exn TypeError ''unsupported operand type(s)'')
      | Some x \<Rightarrow> (case to_fls es of Inl ex \<Rightarrow> Inl ex | Inr xs \<Rightarrow> Inr (x # xs)))"

text \<open>
  \<^verbatim>\<open>np.result_type\<close> of a floating dtype with another dtype: the floating type an
  operand is taken to, and the larger of the two.
\<close>

fun as_float_type :: "dtype \<Rightarrow> dtype" where
  "as_float_type Float64 = Float64"
| "as_float_type Float32 = Float32"
| "as_float_type Float16 = Float16"
| "as_float_type UInt8 = Float16"
| "as_float_type Bool8 = Float16"
| "as_float_type _ = Float64"

definition promote :: "dtype \<Rightarrow> dtype \<Rightarrow> dtype" where
  "promote d1 d2 =
     (if precision (as_float_type d1) \<le> precision (as_float_type d2)
      then as_float_type d2 else as_float_type d1)"

text \<open>\<^verbatim>\<open>np.max\<close> of an array: an array without elements raises \<open>ValueError\<close>.\<close>

fun np_max :: "fl list \<Rightarrow> exn + fl" where
  "np_max [] =
     Inl (Exn ValueError ''zero-size array to reduction operation maximum which has no identity'')"
| "np_max (x # xs) = Inr (foldl fmaximum x xs)"

text \<open>
  The relative differences of \<^verbatim>\<open>compare_matrices\<close>, element by element:
  \<^verbatim>\<open>np.abs(mat_data - npy_data) / (np.abs(mat_data) + 1e-10)\<close>. The difference is
  computed in the common type of the two arrays, the denominator in the type of the
  source.
\<close>

definition rel_diff :: "dtype \<Rightarrow> dtype \<Rightarrow> fl \<Rightarrow> fl \<Rightarrow> fl" where
  "rel_diff dm dn x y =
     fdiv (promote dm dn) (fabs (fsub (promote dm dn) x y))
       (fadd (as_float_type dm) (fabs x) (py_float (1 / 10 ^ 10)))"

definition rel_diffs :: "ndarray \<Rightarrow> ndarray \<Rightarrow> exn + fl list" where
  "rel_diffs mat_data npy_data =
     (case to_fls (flat mat_data) of
        Inl e \<Rightarrow> Inl e
      | Inr xs \<Rightarrow>
          (case to_fls (flat npy_data) of
             Inl e \<Rightarrow> Inl e
           | Inr ys \<Rightarrow> Inr (map2 (rel_diff (dtype mat_data) (dtype npy_data)) xs ys)))"

text \<open>
  \<^verbatim>\<open>np.isclose(a, b, rtol, atol)\<close> on one pair: two finite numbers are close when
  \<open>|a - b| \<le> atol + rtol * |b|\<close>, otherwise they must be equal. \<^verbatim>\<open>np.allclose\<close> asks it
  of every pair; its \<open>atol\<close> is \<open>1e-8\<close> unless given.
\<close>

definition isclose :: "dtype \<Rightarrow> dtype \<Rightarrow> fl \<Rightarrow> fl \<Rightarrow> fl \<Rightarrow> fl \<Rightarrow> bool" where
  "isclose da db rtol atol a b =
     (if isfinite a \<and> isfinite b then
        fle (fabs (fsub (promote da db) a b))
            (fadd (as_float_type db) atol (fmul (as_float_type db) rtol (fabs b)))
      else feq a b)"

definition np_allclose :: "ndarray \<Rightarrow> ndarray \<Rightarrow> fl \<Rightarrow> exn + bool" where
  "np_allclose a b rtol =
     (case to_fls (flat a) of
        Inl e \<Rightarrow> Inl e
      | Inr xs \<Rightarrow>
          (case to_fls (flat b) of
             Inl e \<Rightarrow> Inl e
           | Inr ys \<Rightarrow>
               Inr (list_all2 (isclose (dtype a) (dtype b) rtol (py_float (1 / 10 ^ 8))) xs ys)))"

text \<open>
  \<^verbatim>\<open>np.array_equal\<close>: the same shape and equal elements. Numbers compare by value, the
  elements of object arrays as Python values.
\<close>

definition elem_eq :: "elem \<Rightarrow> elem \<Rightarrow> bool" where
  "elem_eq e1 e2 =
     (case (to_fl e1, to_fl e2) of
        (Some x, Some y) \<Rightarrow> feq x y
      | (None, None) \<Rightarrow> e1 = e2
      | _ \<Rightarrow> False)"

definition np_array_equal :: "ndarray \<Rightarrow> ndarray \<Rightarrow> bool" where
  "np_array_equal a b = (shape a = shape b \<and> list_all2 elem_eq (flat a) (flat b))"

text \<open>
  \<^verbatim>\<open>np.round(a, decimals=6)\<close> on a floating array: multiply by \<open>10 ^ 6\<close>, round to the
  nearest integer, divide by \<open>10 ^ 6\<close>, each step in the array's format.
\<close>

definition round6 :: "dtype \<Rightarrow> fl \<Rightarrow> fl" where
  "round6 d x = fdiv d (frint (fmul d x (py_float (10 ^ 6)))) (py_float (10 ^ 6))"

definition np_round6 :: "ndarray \<Rightarrow> ndarray" where
  "np_round6 a =
     NDArray (shape a) (dtype a)
       (map (\<lambda>e. case e of FloatE x \<Rightarrow> FloatE (round6 (dtype a) x) | _ \<Rightarrow> e) (flat a))"

text \<open>
  \<^verbatim>\<open>a.tobytes()\<close>: the elements in row-major order, each in the little-endian layout of
  the dtype. A floating value is laid out as sign, biased exponent and fraction.
\<close>

fun le_bytes :: "nat \<Rightarrow> nat \<Rightarrow> nat list" where
  "le_bytes 0 v = []"
| "le_bytes (Suc n) v = v mod 256 # le_bytes n (v div 256)"

definition float_bits :: "dtype \<Rightarrow> fl \<Rightarrow> nat" where
  "float_bits d x =
     (let p = precision d;
          top = 2 ^ (p - 1) * (2 ^ exponent_bits d - 1);
          sign = (if is_neg x then 2 ^ (p - 1 + exponent_bits d) else 0)
      in case x of
        NaN \<Rightarrow> top + 2 ^ (p - 2)
      | PInf \<Rightarrow> top
      | NInf \<Rightarrow> sign + top
      | NegZero \<Rightarrow> sign
      | Num q \<Rightarrow>
          if q = 0 then 0
          else
            let a = \<bar>q\<bar>; e = floor_log2 a in
            if e < 1 - emax d then sign + nat \<lfloor>a / pow2 (1 - emax d - (int p - 1))\<rfloor>
            else sign + nat (e + emax d) * 2 ^ (p - 1) +
                 (nat \<lfloor>a / pow2 (e - (int p - 1))\<rfloor> - 2 ^ (p - 1)))"

definition elem_bytes :: "dtype \<Rightarrow> elem \<Rightarrow> nat list" where
  "elem_bytes d e =
     (if is_floating d then
        le_bytes ((precision d + exponent_bits d) div 8)
          (float_bits d (case to_fl e of None \<Rightarrow> NaN | Some x \<Rightarrow> fcast d x))
      else
        let n = (case e of IntE n \<Rightarrow> n | BoolE b \<Rightarrow> (if b then 1 else 0)
                 | FloatE x \<Rightarrow> \<lfloor>fval x\<rfloor> | ObjE v \<Rightarrow> 0)
        in if d = Int64 then le_bytes 8 (nat (n mod 2 ^ 64))
           else if d = Int32 then le_bytes 4 (nat (n mod 2 ^ 32))
           else le_bytes 1 (nat (n mod 2 ^ 8)))"

definition tobytes :: "world \<Rightarrow> ndarray \<Rightarrow> nat list" where
  "tobytes w a =
     (if dtype a = Object then object_bytes w (flat a)
      else concat (map (elem_bytes (dtype a)) (flat a)))"

section \<open>MD5\<close>

text \<open>
  \<^verbatim>\<open>hashlib.md5\<close>, after RFC 1321. A 32-bit word is a natural number, with the
  wrap-around written out.
\<close>

definition md5_K :: "nat list" where
  "md5_K =
     [0xd76aa478, 0xe8c7b756, 0x242070db, 0xc1bdceee,
      0xf57c0faf, 0x4787c62a, 0xa8304613, 0xfd469501,
      0x698098d8, 0x8b44f7af, 0xffff5bb1, 0x895cd7be,
      0x6b901122, 0xfd987193, 0xa679438e, 0x49b40821,
      0xf61e2562, 0xc040b340, 0x265e5a51, 0xe9b6c7aa,
      0xd62f105d, 0x02441453, 0xd8a1e681, 0xe7d3fbc8,
      0x21e1cde6, 0xc33707d6, 0xf4d50d87, 0x455a14ed,
      0xa9e3e905, 0xfcefa3f8, 0x676f02d9, 0x8d2a4c8a,
      0xfffa3942, 0x8771f681, 0x6d9d6122, 0xfde5380c,
      0xa4beea44, 0x4bdecfa9, 0xf6bb4b60, 0xbebfbc70,
      0x289b7ec6, 0xeaa127fa, 0xd4ef3085, 0x04881d05,
      0xd9d4d039, 0xe6db99e5, 0x1fa27cf8, 0xc4ac5665,
      0xf4292244, 0x432aff97, 0xab9423a7, 0xfc93a039,
      0x655b59c3, 0x8f0ccc92, 0xffeff47d, 0x85845dd1,
      0x6fa87e4f, 0xfe2ce6e0, 0xa3014314, 0x4e0811a1,
      0xf7537e82, 0xbd3af235, 0x2ad7d2bb, 0xeb86d391]"

definition md5_S :: "nat list" where
  "md5_S =
     [7, 12, 17, 22, 7, 12, 17, 22, 7, 12, 17, 22, 7, 12, 17, 22,
      5, 9, 14, 20, 5, 9, 14, 20, 5, 9, 14, 20, 5, 9, 14, 20,
      4, 11, 16, 23, 4, 11, 16, 23, 4, 11, 16, 23, 4, 11, 16, 23,
      6, 10, 15, 21, 6, 10, 15, 21, 6, 10, 15, 21, 6, 10, 15, 21]"

definition add32 :: "nat \<Rightarrow> nat \<Rightarrow> nat" where
  "add32 x y = (x + y) mod 2 ^ 32"

definition not32 :: "nat \<Rightarrow> nat" where
  "not32 x = 2 ^ 32 - 1 - x"

definition rotl32 :: "nat \<Rightarrow> nat \<Rightarrow> nat" where
  "rotl32 n x = (x * 2 ^ n) mod 2 ^ 32 + x div 2 ^ (32 - n)"

definition md5_F :: "nat \<Rightarrow> nat \<Rightarrow> nat \<Rightarrow> nat \<Rightarrow> nat" where
  "md5_F i b c d =
     (if i < 16 then (b AND c) OR (not32 b AND d)
      else if i < 32 then (d AND b) OR (not32 d AND c)
      else if i < 48 then b XOR c XOR d
      else c XOR (b OR not32 d))"

definition md5_g :: "nat \<Rightarrow> nat" where
  "md5_g i =
     (if i < 16 then i
      else if i < 32 then (5 * i + 1) mod 16
      else if i < 48 then (3 * i + 5) mod 16
      else (7 * i) mod 16)"

type_synonym md5_state = "nat \<times> nat \<times> nat \<times> nat"

fun md5_step :: "nat list \<Rightarrow> md5_state \<Rightarrow> nat \<Rightarrow> md5_state" where
  "md5_step m (a, b, c, d) i =
     (d,
      add32 b (rotl32 (md5_S ! i)
                 (add32 (add32 (add32 (md5_F i b c d) a) (md5_K ! i)) (m ! md5_g i))),
      b, c)"

fun md5_block :: "md5_state \<Rightarrow> nat list \<Rightarrow> md5_state" where
  "md5_block (a0, b0, c0, d0) m =
     (case foldl (md5_step m) (a0, b0, c0, d0) [0 ..< 64] of
        (a, b, c, d) \<Rightarrow> (add32 a0 a, add32 b0 b, add32 c0 c, add32 d0 d))"

fun le_nat :: "nat list \<Rightarrow> nat" where
  "le_nat [] = 0"
| "le_nat (b # bs) = b + 256 * le_nat bs"

fun chunks :: "nat \<Rightarrow> 'a list \<Rightarrow> 'a list list" where
  "chunks n [] = []"
| "chunks n (x # xs) =
     (if n = 0 then [] else take n (x # xs) # chunks n (drop n (x # xs)))"

definition md5_pad :: "nat list \<Rightarrow> nat list" where
  "md5_pad msg =
     msg @ [0x80] @ replicate ((119 - length msg mod 64) mod 64) 0 @
     le_bytes 8 (8 * length msg)"

definition md5_digest :: "nat list \<Rightarrow> md5_state" where
  "md5_digest msg =
     foldl md5_block (0x67452301, 0xefcdab89, 0x98badcfe, 0x10325476)
       (map (\<lambda>blk. map le_nat (chunks 4 blk)) (chunks 64 (md5_pad msg)))"

definition hex_digit :: "nat \<Rightarrow> char" where
  "hex_digit n = ''0123456789abcdef'' ! n"

definition hex_byte :: "nat \<Rightarrow> string" where
  "hex_byte b = [hex_digit (b div 16), hex_digit (b mod 16)]"

text \<open>\<^verbatim>\<open>hashlib.md5(data).hexdigest()[:8]\<close>: the first four bytes of the digest.\<close>

definition md5_hex8 :: "nat list \<Rightarrow> string" where
  "md5_hex8 msg = concat (map hex_byte (le_bytes 4 (fst (md5_digest msg))))"

section \<open>Hashing and comparing arrays\<close>

text \<open>
  \<^verbatim>\<open>compute_array_hash\<close>: the test is \<^verbatim>\<open>array.dtype == np.float64 or array.dtype ==
  np.float32\<close>, so an array of another floating dtype is hashed from its raw bytes.
\<close>

definition compute_array_hash :: "world \<Rightarrow> ndarray \<Rightarrow> string" where
  "compute_array_hash w array =
     (if dtype array = Float64 \<or> dtype array = Float32
      then md5_hex8 (tobytes w (np_round6 array))
      else md5_hex8 (tobytes w array))"

text \<open>
  Step 3 of \<^verbatim>\<open>compare_matrices\<close>: the value of \<open>values_equal\<close>, with the entries
  \<open>max_relative_difference\<close> and \<open>comparison_error\<close> of the differences. The comparison
  stands in \<^verbatim>\<open>try ... except Exception\<close>: a failure leaves \<open>values_equal\<close> false and
  records the message.
\<close>

definition compare_values :: "ndarray \<Rightarrow> ndarray \<Rightarrow> bool \<times> fl option \<times> string option" where
  "compare_values mat_data npy_data =
     (if shape mat_data = shape npy_data then
        (if is_floating (dtype mat_data) then
           (case rel_diffs mat_data npy_data of
              Inl e \<Rightarrow> (False, None, Some (message e))
            | Inr rel \<Rightarrow>
                (case np_max rel of
                   Inl e \<Rightarrow> (False, None, Some (message e))
                 | Inr max_rel_diff \<Rightarrow>
                     (flt max_rel_diff (py_float (1 / 10 ^ 10)), Some max_rel_diff, None)))
         else (np_array_equal mat_data npy_data, None, None))
      else (False, None, None))"

text \<open>
  Step 4: the value of \<open>transposed_equal\<close>. The comparison stands in a \<^verbatim>\<open>try\<close> with a
  bare \<^verbatim>\<open>except: pass\<close>.
\<close>

definition compare_transposed :: "ndarray \<Rightarrow> ndarray \<Rightarrow> bool" where
  "compare_transposed mat_data npy_data =
     (if ndim mat_data = 2 \<and> ndim npy_data = 2 then
        (if shape mat_data = shape (transpose_nd npy_data) then
           (let mat_transposed = transpose_nd mat_data in
            if is_floating (dtype mat_data) then
              (case np_allclose mat_transposed npy_data (py_float (1 / 10 ^ 10)) of
                 Inl e \<Rightarrow> False
               | Inr b \<Rightarrow> b)
            else np_array_equal mat_transposed npy_data)
         else False)
      else False)"

definition compare_matrices :: "world \<Rightarrow> ndarray \<Rightarrow> ndarray \<Rightarrow> string \<Rightarrow> comparison" where
  "compare_matrices w mat_data npy_data fname =
     (case compare_values mat_data npy_data of
        (veq, max_rel, err) \<Rightarrow>
          \<lparr>filename = fname,
           shapes_equal = (shape mat_data = shape npy_data),
           dtypes_equal = (dtype mat_data = dtype npy_data),
           values_equal = veq,
           transposed_equal = compare_transposed mat_data npy_data,
           differences =
             \<lparr>shape_matlab = shape mat_data, shape_numpy = shape npy_data,
              dtype_matlab = dtype_str (dtype mat_data),
              dtype_numpy = dtype_str (dtype npy_data),
              max_relative_difference = max_rel,
              comparison_error = err,
              hash_matlab = compute_array_hash w mat_data,
              hash_numpy = compute_array_hash w npy_data\<rparr>\<rparr>)"


(*DEFS-END*)

section \<open>Example worlds\<close>

definition no_np_array :: "pyval list \<Rightarrow> exn + ndarray" where
  "no_np_array vs = Inl (Exn ValueError ''inhomogeneous shape'')"

definition no_object_bytes :: "elem list \<Rightarrow> nat list" where
  "no_object_bytes es = []"

text \<open>
  Four paths for the detector: an HDF5 file, a legacy file, a file neither reader accepts,
  and a path whose name holds a lone surrogate, which the encoding of file names rejects
  with \<^verbatim>\<open>UnicodeEncodeError\<close>, a \<^verbatim>\<open>ValueError\<close>, before any file is opened.
\<close>

definition detector_world :: world where
  "detector_world =
     \<lparr>files =
        [([''in'', ''h.mat''], H5File \<lparr>entries = [], targets = []\<rparr>),
         ([''in'', ''l.mat''], MatFile \<lparr>header = ''MATLAB 5.0 MAT-file'', vars = []\<rparr>),
         ([''in'', ''junk.mat''],
            OtherFile (Exn OSError ''Unable to open file (file signature not found)'')
                      (Exn ValueError ''Unknown mat file type'')),
         ([''in'', ''surrogate.mat''],
            OtherFile (Exn ValueError ''surrogates not allowed'')
                      (Exn ValueError ''surrogates not allowed''))],
      read_only = (\<lambda>p. False),
      np_array = no_np_array,
      object_bytes = no_object_bytes\<rparr>"

(*THEOREMS*)

section \<open>The Format Detector never fails on an \<open>OSError\<close>\<close>

text \<open>
  Claim C4. \<^verbatim>\<open>detect_mat_version\<close> first opens the file with the HDF5 reader and returns
  the HDF5 tag \<^verbatim>\<open>v7.3\<close> on success. When that reader fails with an \<open>OSError\<close> it tries
  the legacy reader: success gives the legacy tag \<^verbatim>\<open>v7.0_or_older\<close>, any failure gives
  \<^verbatim>\<open>unknown\<close>. A failure of the HDF5 reader of another class is not handled and leaves
  the function. So detection returns one of the three tags, and never raises, whenever
  the HDF5 reader fails only with \<open>OSError\<close>.
\<close>

theorem C4_detect_mat_version:
  "(h5py_File w p = Inr f \<longrightarrow> detect_mat_version w p = Inr ''v7.3'') \<and>
   (h5py_File w p = Inl e \<and> exn_class e = OSError \<and> scipy_loadmat w p True = Inr d \<longrightarrow>
      detect_mat_version w p = Inr ''v7.0_or_older'') \<and>
   (h5py_File w p = Inl e \<and> exn_class e = OSError \<and> scipy_loadmat w p True = Inl e' \<longrightarrow>
      detect_mat_version w p = Inr ''unknown'') \<and>
   (h5py_File w p = Inl e \<and> exn_class e \<noteq> OSError \<longrightarrow> detect_mat_version w p = Inl e) \<and>
   ((\<forall>x. h5py_File w p = Inl x \<longrightarrow> exn_class x = OSError) \<longrightarrow>
      detect_mat_version w p \<in> {Inr ''v7.3'', Inr ''v7.0_or_older'', Inr ''unknown''})"
  by (auto simp: detect_mat_version_def split: sum.splits)

theorem C4_witness:
  "detect_mat_version detector_world [''in'', ''h.mat''] = Inr ''v7.3'' \<and>
   detect_mat_version detector_world [''in'', ''l.mat''] = Inr ''v7.0_or_older'' \<and>
   detect_mat_version detector_world [''in'', ''junk.mat''] = Inr ''unknown'' \<and>
   detect_mat_version detector_world [''in'', ''missing.mat''] = Inr ''unknown''"
proof -
  have h: "h5py_File detector_world [''in'', ''h.mat''] = Inr \<lparr>entries = [], targets = []\<rparr>"
    by (simp add: h5py_File_def lookup_file_def detector_world_def)
  have l1: "h5py_File detector_world [''in'', ''l.mat''] =
      Inl (Exn OSError ''Unable to open file (file signature not found)'')"
    by (simp add: h5py_File_def lookup_file_def detector_world_def)
  have l2: "scipy_loadmat detector_world [''in'', ''l.mat''] True =
      Inr (loadmat_dict \<lparr>header = ''MATLAB 5.0 MAT-file'', vars = []\<rparr> True)"
    by (simp add: scipy_loadmat_def lookup_file_def detector_world_def)
  have j1: "h5py_File detector_world [''in'', ''junk.mat''] =
      Inl (Exn OSError ''Unable to open file (file signature not found)'')"
    by (simp add: h5py_File_def lookup_file_def detector_world_def)
  have j2: "scipy_loadmat detector_world [''in'', ''junk.mat''] True =
      Inl (Exn ValueError ''Unknown mat file type'')"
    by (simp add: scipy_loadmat_def lookup_file_def detector_world_def)
  have m1: "h5py_File detector_world [''in'', ''missing.mat''] =
      Inl (Exn OSError ''Unable to open file (No such file or directory)'')"
    by (simp add: h5py_File_def lookup_file_def detector_world_def)
  have m2: "scipy_loadmat detector_world [''in'', ''missing.mat''] True =
      Inl (Exn OSError ''No such file or directory'')"
    by (simp add: scipy_loadmat_def lookup_file_def detector_world_def)
  show ?thesis
    using C4_detect_mat_version [of detector_world "[''in'', ''h.mat'']"
            "\<lparr>entries = [], targets = []\<rparr>"]
          C4_detect_mat_version [of detector_world "[''in'', ''l.mat'']" _
            "Exn OSError ''Unable to open file (file signature not found)''"
            "loadmat_dict \<lparr>header = ''MATLAB 5.0 MAT-file'', vars = []\<rparr> True"]
          C4_detect_mat_version [of detector_world "[''in'', ''junk.mat'']" _
            "Exn OSError ''Unable to open file (file signature not found)''" _
            "Exn ValueError ''Unknown mat file type''"]
          C4_detect_mat_version [of detector_world "[''in'', ''missing.mat'']" _
            "Exn OSError ''Unable to open file (No such file or directory)''" _
            "Exn OSError ''No such file or directory''"]
          h l1 l2 j1 j2 m1 m2
    by simp
qed

text \<open>
  The claim as stated, that detection never raises for any path, fails at the path with
  the lone surrogate: the HDF5 reader raises a \<open>ValueError\<close>, which the handler for
  \<open>OSError\<close> does not catch.
\<close>

theorem C4_counterexample:
  "detect_mat_version detector_world [''in'', ''surrogate.mat''] =
     Inl (Exn ValueError ''surrogates not allowed'')"
  by (simp add: detect_mat_version_def h5py_File_def lookup_file_def detector_world_def)

end
